theory Spec2Isabelle
  imports Main "HOL-Library.Word"
begin

unbundle bit_operations_syntax

chapter \<open>The embedding of the operator code\<close>

section \<open>Outcomes of Go calls\<close>

text \<open>
  A Go call of the operator either returns normally, returns a non-nil \<open>error\<close>, or
  panics at run time (nil pointer dereference, assignment to an entry of a nil map).
  The two failures are kept apart: \<open>Error msg\<close> is a returned error value,
  \<open>Panic msg\<close> is a run-time panic.
\<close>

datatype fault = Panic string | Error string

section \<open>The standard library pieces used by \<open>common_helpers.go\<close>\<close>

subsection \<open>\<open>crypto/sha1\<close>: the SHA-1 digest of a byte string\<close>

text \<open>
  \<open>sha1.Sum\<close> belongs to the Go standard library. It is modelled by the algorithm of
  FIPS 180-4: padding to a multiple of 64 bytes, the 80-word message schedule and the
  80 rounds over a state of five 32-bit words. The result is Go's \<open>[20]byte\<close>.
\<close>

type_synonym byte = "8 word"
type_synonym u32 = "32 word"
type_synonym digest = "u32 \<times> u32 \<times> u32 \<times> u32 \<times> u32"

definition rotl :: "nat \<Rightarrow> u32 \<Rightarrow> u32" where
  "rotl n x = push_bit n x OR drop_bit (32 - n) x"

definition be64 :: "64 word \<Rightarrow> byte list" where
  "be64 n = map (\<lambda>i. ucast (drop_bit (8 * (7 - i)) n)) [0..<8]"

definition pad :: "byte list \<Rightarrow> byte list" where
  "pad m = m @ [0x80] @ replicate ((119 - length m mod 64) mod 64) 0
             @ be64 (push_bit 3 (of_nat (length m)))"

definition be32 :: "byte list \<Rightarrow> u32" where
  "be32 bs = foldl (\<lambda>acc b. push_bit 8 acc OR ucast b) 0 bs"

definition words_of :: "byte list \<Rightarrow> u32 list" where
  "words_of bs = map (\<lambda>i. be32 (take 4 (drop (4 * i) bs))) [0..<length bs div 4]"

definition blocks :: "byte list \<Rightarrow> byte list list" where
  "blocks p = map (\<lambda>i. take 64 (drop (64 * i) p)) [0..<length p div 64]"

fun extend :: "nat \<Rightarrow> u32 list \<Rightarrow> u32 list" where
  "extend 0 w = w"
| "extend (Suc n) w =
     (let l = length w
      in extend n (w @ [rotl 1 (w ! (l - 3) XOR w ! (l - 8) XOR w ! (l - 14) XOR w ! (l - 16))]))"

definition round1 :: "nat \<Rightarrow> digest \<Rightarrow> u32 \<Rightarrow> digest" where
  "round1 t s w = (case s of (a, b, c, d, e) \<Rightarrow>
     (let f = (if t < 20 then (b AND c) OR (NOT b AND d)
               else if t < 40 then b XOR c XOR d
               else if t < 60 then (b AND c) OR (b AND d) OR (c AND d)
               else b XOR c XOR d);
          k = (if t < 20 then 0x5A827999
               else if t < 40 then 0x6ED9EBA1
               else if t < 60 then 0x8F1BBCDC
               else 0xCA62C1D6)
      in (rotl 5 a + f + e + k + w, a, rotl 30 b, c, d)))"

definition block :: "digest \<Rightarrow> byte list \<Rightarrow> digest" where
  "block h p =
     (let w = extend 64 (words_of p)
      in case (h, foldl (\<lambda>s t. round1 t s (w ! t)) h [0..<80]) of
           ((h0, h1, h2, h3, h4), (a, b, c, d, e)) \<Rightarrow>
             (h0 + a, h1 + b, h2 + c, h3 + d, h4 + e))"

definition init :: digest where
  "init = (0x67452301, 0xEFCDAB89, 0x98BADCFE, 0x10325476, 0xC3D2E1F0)"

definition bytes32 :: "u32 \<Rightarrow> byte list" where
  "bytes32 w = [ucast (drop_bit 24 w), ucast (drop_bit 16 w), ucast (drop_bit 8 w), ucast w]"

definition sha1_Sum :: "byte list \<Rightarrow> byte list" where
  "sha1_Sum m = (case foldl block init (blocks (pad m)) of
     (a, b, c, d, e) \<Rightarrow> bytes32 a @ bytes32 b @ bytes32 c @ bytes32 d @ bytes32 e)"

subsection \<open>\<open>fmt.Sprintf\<close> with the two formats the helpers use\<close>

text \<open>A Go string is a sequence of bytes; \<open>[]byte(s)\<close> reads them.\<close>

definition bytes_of :: "string \<Rightarrow> byte list" where
  "bytes_of s = map of_char s"

definition hexdigit :: "nat \<Rightarrow> char" where
  "hexdigit n = ''0123456789abcdef'' ! n"

text \<open>\<open>fmt.Sprintf("%x", b)\<close> for a byte array: two lower-case hex digits per byte.\<close>

definition Sprintf_x :: "byte list \<Rightarrow> string" where
  "Sprintf_x bs = concat (map (\<lambda>b. [hexdigit (unat b div 16), hexdigit (unat b mod 16)]) bs)"

text \<open>\<open>fmt.Sprintf("%s-%s-%s", a, b, c)\<close>.\<close>

definition Sprintf_s_s_s :: "string \<Rightarrow> string \<Rightarrow> string \<Rightarrow> string" where
  "Sprintf_s_s_s a b c = a @ ''-'' @ b @ ''-'' @ c"

section \<open>Bucket claims (\<open>api/core/v1alpha1/common_helpers.go\<close>)\<close>

text \<open>
  \<open>S3Provider\<close>: the object-storage variant of the shared storage provider. \<open>Type\<close> is a
  pointer in the source (\<open>*S3ProviderType\<close>, a string type), hence an option. The record
  is used through its extensible scheme, so every statement about a provider holds for
  providers carrying any further fields.
\<close>

record S3Provider =
  Path :: string
  Type :: "string option"
  Endpoint :: string
  SecretRef :: "string option"

definition BucketUniqLabel :: string where
  "BucketUniqLabel = ''matrixorigin.io/bucket-unique-id''"

text \<open>The local variable \<open>providerType\<close> of \<open>UniqueBucketLabel\<close>: empty unless \<open>Type\<close> is set.\<close>

definition providerType :: "'a S3Provider_scheme \<Rightarrow> string" where
  "providerType s3Provider = (case Type s3Provider of None \<Rightarrow> '''' | Some t \<Rightarrow> t)"

text \<open>The first value of \<open>uniqId\<close>: the string that is handed to the hash.\<close>

definition uniqIdString :: "'a S3Provider_scheme \<Rightarrow> string" where
  "uniqIdString s3Provider =
     Sprintf_s_s_s (providerType s3Provider) (Endpoint s3Provider) (Path s3Provider)"

definition UniqueBucketLabel :: "'a S3Provider_scheme \<Rightarrow> string" where
  "UniqueBucketLabel s3Provider =
     (let uniqId = uniqIdString s3Provider;
          uniqId = Sprintf_x (sha1_Sum (bytes_of uniqId))
      in uniqId)"

text \<open>
  Object metadata with the two maps the helpers touch. A Go map may be nil, which differs
  from an empty map when it is written to.
\<close>

record ObjectMeta =
  Name :: string
  Namespace :: string
  Labels :: "(string \<rightharpoonup> string) option"
  Annotations :: "(string \<rightharpoonup> string) option"

record BucketClaim =
  ObjectMeta :: ObjectMeta
  BindTo :: string

text \<open>
  The resource store is an external collaborator. \<open>c.List\<close> with a
  \<open>client.MatchingLabels\<close> selector either fails or yields the matching claims.
\<close>

type_synonym MatchingLabels = "(string \<times> string) list"

record Client =
  ListBucketClaims :: "MatchingLabels \<Rightarrow> fault + BucketClaim list"

text \<open>
  \<open>ClaimedBucket\<close>. Its documentation obliges the caller to pass a non-nil provider, so
  the provider is a value here. The result is Go's pair \<open>(*BucketClaim, error)\<close>:
  \<open>Inr None\<close> is \<open>(nil, nil)\<close>.
\<close>

definition ClaimedBucket :: "Client \<Rightarrow> 'a S3Provider_scheme \<Rightarrow> fault + BucketClaim option" where
  "ClaimedBucket c provider =
     (let uniqLabel = UniqueBucketLabel provider
      in case ListBucketClaims c [(BucketUniqLabel, uniqLabel)] of
           Inl err \<Rightarrow> Inl err
         | Inr items \<Rightarrow>
             (case length items of
                0 \<Rightarrow> Inr None
              | Suc 0 \<Rightarrow> Inr (Some (items ! 0))
              | _ \<Rightarrow> Inl (Error ''list more than one buckets'')))"

text \<open>
  A store seeded with a list of claims, for running \<open>ClaimedBucket\<close> on concrete data:
  listing returns the claims that carry every selected label.
\<close>

definition hasLabels :: "MatchingLabels \<Rightarrow> BucketClaim \<Rightarrow> bool" where
  "hasLabels sel bc =
     (case Labels (ObjectMeta bc) of
        None \<Rightarrow> sel = []
      | Some ls \<Rightarrow> list_all (\<lambda>(k, v). ls k = Some v) sel)"

definition seededClient :: "BucketClaim list \<Rightarrow> Client" where
  "seededClient objs = \<lparr>ListBucketClaims = (\<lambda>sel. Inr (filter (hasLabels sel) objs))\<rparr>"

definition claimFor :: "string \<Rightarrow> string \<Rightarrow> BucketClaim" where
  "claimFor name label =
     \<lparr>ObjectMeta = \<lparr>ObjectMeta.Name = name, Namespace = '''',
                     Labels = Some [BucketUniqLabel \<mapsto> label], Annotations = None\<rparr>,
      BindTo = ''''\<rparr>"

definition minioProvider :: S3Provider where
  "minioProvider = \<lparr>Path = ''matrixone/path1/path2'', Type = Some ''minio'',
                     Endpoint = ''http://minio-0.minio.mo-system:9000'',
                     SecretRef = Some ''minio''\<rparr>"

section \<open>Overlays (\<open>api/core/v1alpha1/common_helpers.go\<close>)\<close>

subsection \<open>The Kubernetes objects an overlay is applied to\<close>

text \<open>
  The Kubernetes API types carry the fields the operator reads or writes. A pointer field
  is an option. A slice field of a generated object is a list (a nil slice is the empty
  list: the code only ranges over, appends to or replaces these slices). Nested objects
  the operator passes on untouched (affinity, probes, security context and the like) are
  represented by their serialised text.
\<close>

record corev1_Volume =
  Name :: string
  VolumeSource :: string

record EnvVar =
  Name :: string
  Value :: string
  ValueFrom :: "string option"

record VolumeMount =
  Name :: string
  ReadOnly :: bool
  MountPath :: string

record ResourceRequirements =
  Limits :: "string \<rightharpoonup> int"
  Requests :: "string \<rightharpoonup> int"

record Container =
  Name :: string
  Image :: string
  Command :: "string list"
  Args :: "string list"
  EnvFrom :: "string list"
  Env :: "EnvVar list"
  Resources :: ResourceRequirements
  VolumeMounts :: "VolumeMount list"
  LivenessProbe :: "string option"
  ReadinessProbe :: "string option"
  Lifecycle :: "string option"
  ImagePullPolicy :: string

record PodSpec =
  Volumes :: "corev1_Volume list"
  InitContainers :: "Container list"
  Containers :: "Container list"
  Affinity :: "string option"
  ServiceAccountName :: string
  SecurityContext :: "string option"
  ImagePullSecrets :: "string list"
  Tolerations :: "string list"
  PriorityClassName :: string
  TerminationGracePeriodSeconds :: "int option"
  HostAliases :: "string list"
  TopologySpreadConstraints :: "string list"
  RuntimeClassName :: "string option"
  DNSConfig :: "string option"
  ReadinessGates :: "string list"
  NodeSelector :: "(string \<rightharpoonup> string) option"

subsection \<open>The overlay\<close>

text \<open>
  The declaration of \<open>Overlay\<close> lies outside the files embedded here; its fields are the ones
  the helpers read. \<open>OverlayMainContainer\<close> reads \<open>o.MainContainerOverlay\<close> as well as
  \<open>o.ImagePullPolicy\<close> and \<open>o.VolumeMounts\<close>: the main container overlay is embedded in
  the overlay and its fields are promoted, which is record extension. A slice, map or
  pointer field of an overlay is an option, because the helpers test it against nil.
\<close>

record MainContainerOverlay =
  ImagePullPolicy :: "string option"
  Command :: "string list option"
  Args :: "string list option"
  EnvFrom :: "string list option"
  Env :: "EnvVar list option"
  ReadinessProbe :: "string option"
  LivenessProbe :: "string option"
  Lifecycle :: "string option"
  VolumeMounts :: "VolumeMount list option"

record Overlay = MainContainerOverlay +
  Volumes :: "corev1_Volume list option"
  VolumeClaims :: "string list"
  Affinity :: "string option"
  ServiceAccountName :: string
  SecurityContext :: "string option"
  ImagePullSecrets :: "string list option"
  Tolerations :: "string list option"
  PriorityClassName :: string
  TerminationGracePeriodSeconds :: "int option"
  HostAliases :: "string list option"
  TopologySpreadConstraints :: "string list option"
  RuntimeClassName :: "string option"
  DNSConfig :: "string option"
  InitContainers :: "Container list option"
  SidecarContainers :: "Container list option"
  PodLabels :: "(string \<rightharpoonup> string) option"
  PodAnnotations :: "(string \<rightharpoonup> string) option"

text \<open>
  The reserved name of the generated main container. The constant is declared outside
  the files embedded here; no property below depends on its value.
\<close>

definition ContainerMain :: string where
  "ContainerMain = ''main''"

subsection \<open>\<open>util.UpsertListByKey\<close> and \<open>util.FindFirst\<close>\<close>

text \<open>
  Modelled from the spec: \<open>util.UpsertListByKey\<close> belongs to the controller-runtime
  helper library, whose code is not among the files embedded here. Section 4.2 of the specification
  describes it: the list is "upserted by name (overlay entries with a matching name
  replace, others are appended, existing order preserved for untouched entries)". The
  entries of the second list are upserted one after the other; an entry replaces the
  first entry of the list that has its key.
\<close>

fun upsertByKey :: "('a \<Rightarrow> 'k) \<Rightarrow> 'a list \<Rightarrow> 'a \<Rightarrow> 'a list" where
  "upsertByKey keyFn [] x = [x]"
| "upsertByKey keyFn (y # ys) x =
     (if keyFn y = keyFn x then x # ys else y # upsertByKey keyFn ys x)"

definition UpsertListByKey :: "'a list \<Rightarrow> 'a list \<Rightarrow> ('a \<Rightarrow> 'k) \<Rightarrow> 'a list" where
  "UpsertListByKey list items keyFn = foldl (upsertByKey keyFn) list items"

text \<open>
  Modelled from the spec: \<open>util.FindFirst\<close>, of the same library, yields the first
  element that satisfies the predicate, or nil.
\<close>

definition FindFirst :: "'a list \<Rightarrow> ('a \<Rightarrow> bool) \<Rightarrow> 'a option" where
  "FindFirst list p = find p list"

subsection \<open>The helpers\<close>

text \<open>
  The Go statements \<open>if x != nil { ... }\<close> and \<open>if cond { ... }\<close> on the object under
  construction.
\<close>

definition ifSet :: "'a option \<Rightarrow> ('a \<Rightarrow> 'p \<Rightarrow> 'p) \<Rightarrow> 'p \<Rightarrow> 'p" where
  "ifSet x upd p = (case x of None \<Rightarrow> p | Some v \<Rightarrow> upd v p)"

definition ifTrue :: "bool \<Rightarrow> ('p \<Rightarrow> 'p) \<Rightarrow> 'p \<Rightarrow> 'p" where
  "ifTrue c upd p = (if c then upd p else p)"

text \<open>
  \<open>for k, v := range m { target[k] = v }\<close>: nothing happens for an empty \<open>m\<close>; a write
  to a nil target panics; otherwise the entries of \<open>m\<close> override those of the target.
\<close>

definition assignEntries ::
  "(string \<rightharpoonup> string) \<Rightarrow> (string \<rightharpoonup> string) option \<Rightarrow> fault + (string \<rightharpoonup> string) option"
where
  "assignEntries m target =
     (if m = Map.empty then Inr target
      else case target of
             None \<Rightarrow> Inl (Panic ''assignment to entry in nil map'')
           | Some t \<Rightarrow> Inr (Some (t ++ m)))"

definition OverlayPodMeta :: "'a Overlay_scheme option \<Rightarrow> ObjectMeta \<Rightarrow> fault + ObjectMeta" where
  "OverlayPodMeta ov meta =
     (case ov of
        None \<Rightarrow> Inr meta
      | Some ovl \<Rightarrow>
          (case (case PodLabels ovl of
                   None \<Rightarrow> Inr meta
                 | Some ls \<Rightarrow>
                     (case assignEntries ls (Labels meta) of
                        Inl e \<Rightarrow> Inl e
                      | Inr ls' \<Rightarrow> Inr (meta\<lparr>Labels := ls'\<rparr>))) of
             Inl e \<Rightarrow> Inl e
           | Inr meta \<Rightarrow>
               (case PodAnnotations ovl of
                  None \<Rightarrow> Inr meta
                | Some ans \<Rightarrow>
                    (case assignEntries ans (Annotations meta) of
                       Inl e \<Rightarrow> Inl e
                     | Inr ans' \<Rightarrow> Inr (meta\<lparr>Annotations := ans'\<rparr>)))))"

definition AppendVolumeClaims :: "'a Overlay_scheme option \<Rightarrow> string list \<Rightarrow> string list" where
  "AppendVolumeClaims ov claims =
     (case ov of None \<Rightarrow> claims | Some ovl \<Rightarrow> claims @ VolumeClaims ovl)"

definition findMainContainer :: "Container list \<Rightarrow> Container option" where
  "findMainContainer containers = find (\<lambda>c. Container.Name c = ContainerMain) containers"

definition OverlayPodSpec :: "'a Overlay_scheme option \<Rightarrow> PodSpec \<Rightarrow> PodSpec" where
  "OverlayPodSpec ov pod =
     (case ov of
        None \<Rightarrow> pod
      | Some ovl \<Rightarrow>
         (let pod = ifSet (Overlay.Volumes ovl)
                (\<lambda>vs pod. pod\<lparr>PodSpec.Volumes :=
                   UpsertListByKey (PodSpec.Volumes pod) vs corev1_Volume.Name\<rparr>) pod;
              pod = ifSet (Overlay.Affinity ovl)
                (\<lambda>v pod. pod\<lparr>PodSpec.Affinity := Some v\<rparr>) pod;
              pod = ifTrue (Overlay.ServiceAccountName ovl \<noteq> [])
                (\<lambda>pod. pod\<lparr>PodSpec.ServiceAccountName := Overlay.ServiceAccountName ovl\<rparr>) pod;
              pod = ifSet (Overlay.SecurityContext ovl)
                (\<lambda>v pod. pod\<lparr>PodSpec.SecurityContext := Some v\<rparr>) pod;
              pod = ifSet (Overlay.ImagePullSecrets ovl)
                (\<lambda>v pod. pod\<lparr>PodSpec.ImagePullSecrets := v\<rparr>) pod;
              pod = ifSet (Overlay.Tolerations ovl)
                (\<lambda>v pod. pod\<lparr>PodSpec.Tolerations := v\<rparr>) pod;
              pod = ifTrue (Overlay.PriorityClassName ovl \<noteq> [])
                (\<lambda>pod. pod\<lparr>PodSpec.PriorityClassName := Overlay.PriorityClassName ovl\<rparr>) pod;
              pod = ifSet (Overlay.TerminationGracePeriodSeconds ovl)
                (\<lambda>v pod. pod\<lparr>PodSpec.TerminationGracePeriodSeconds := Some v\<rparr>) pod;
              pod = ifSet (Overlay.HostAliases ovl)
                (\<lambda>v pod. pod\<lparr>PodSpec.HostAliases := v\<rparr>) pod;
              pod = ifSet (Overlay.TopologySpreadConstraints ovl)
                (\<lambda>v pod. pod\<lparr>PodSpec.TopologySpreadConstraints := v\<rparr>) pod;
              pod = ifSet (Overlay.RuntimeClassName ovl)
                (\<lambda>v pod. pod\<lparr>PodSpec.RuntimeClassName := Some v\<rparr>) pod;
              pod = ifSet (Overlay.DNSConfig ovl)
                (\<lambda>v pod. pod\<lparr>PodSpec.DNSConfig := Some v\<rparr>) pod;
              pod = ifSet (Overlay.InitContainers ovl)
                (\<lambda>v pod. pod\<lparr>PodSpec.InitContainers := v\<rparr>) pod;
              pod = ifSet (SidecarContainers ovl)
                (\<lambda>sidecars pod.
                   (let containers = [];
                        main = findMainContainer (Containers pod);
                        containers = (case main of None \<Rightarrow> containers
                                      | Some m \<Rightarrow> containers @ [m]);
                        containers = containers @ sidecars
                    in pod\<lparr>Containers := containers\<rparr>)) pod
          in pod))"

definition OverlayMainContainer :: "'a Overlay_scheme option \<Rightarrow> Container \<Rightarrow> Container" where
  "OverlayMainContainer ov c =
     (case ov of
        None \<Rightarrow> c
      | Some ovl \<Rightarrow>
         (let mc = MainContainerOverlay.truncate ovl;
              c = ifSet (MainContainerOverlay.ImagePullPolicy mc)
                (\<lambda>_ c. c\<lparr>Container.ImagePullPolicy :=
                           the (MainContainerOverlay.ImagePullPolicy ovl)\<rparr>) c;
              c = ifSet (MainContainerOverlay.Command mc)
                (\<lambda>v c. c\<lparr>Container.Command := v\<rparr>) c;
              c = ifSet (MainContainerOverlay.Args mc)
                (\<lambda>v c. c\<lparr>Container.Args := v\<rparr>) c;
              c = ifSet (MainContainerOverlay.EnvFrom mc)
                (\<lambda>v c. c\<lparr>Container.EnvFrom := v\<rparr>) c;
              c = ifSet (MainContainerOverlay.Env mc)
                (\<lambda>v c. c\<lparr>Container.Env := UpsertListByKey (Container.Env c) v EnvVar.Name\<rparr>) c;
              c = ifSet (MainContainerOverlay.ReadinessProbe mc)
                (\<lambda>v c. c\<lparr>Container.ReadinessProbe := Some v\<rparr>) c;
              c = ifSet (MainContainerOverlay.LivenessProbe mc)
                (\<lambda>v c. c\<lparr>Container.LivenessProbe := Some v\<rparr>) c;
              c = ifSet (MainContainerOverlay.Lifecycle mc)
                (\<lambda>v c. c\<lparr>Container.Lifecycle := Some v\<rparr>) c;
              c = ifSet (MainContainerOverlay.VolumeMounts mc)
                (\<lambda>_ c. c\<lparr>Container.VolumeMounts :=
                   UpsertListByKey (Container.VolumeMounts c)
                     (case MainContainerOverlay.VolumeMounts ovl of None \<Rightarrow> [] | Some ms \<Rightarrow> ms)
                     VolumeMount.Name\<rparr>) c
          in c))"

section \<open>Failover status (\<open>api/core/v1alpha1/common_helpers.go\<close>)\<close>

text \<open>
  An instant is a number of nanoseconds on the time line. A \<open>time.Duration\<close> is a signed
  64-bit count of nanoseconds. \<open>Time.Sub\<close> saturates: a difference outside the range of
  a duration yields the smallest or the largest duration.
\<close>

type_synonym Time = int
type_synonym Duration = "64 word"

definition minDuration :: int where
  "minDuration = - (2 ^ 63)"

definition maxDuration :: int where
  "maxDuration = 2 ^ 63 - 1"

definition time_Sub :: "Time \<Rightarrow> Time \<Rightarrow> Duration" where
  "time_Sub t u =
     (let d = t - u
      in if d < minDuration then word_of_int minDuration
         else if maxDuration < d then word_of_int maxDuration
         else word_of_int d)"

record Store =
  PodName :: string
  Phase :: string
  LastTransitionTime :: Time

record FailoverStatus =
  AvailableStores :: "Store list"
  FailedStores :: "Store list"

text \<open>
  The loop of \<open>StoresFailedFor\<close>. It calls \<open>time.Now()\<close> once per store: \<open>now k\<close> is what
  the \<open>k\<close>-th call returns.
\<close>

fun storesFailedLoop ::
  "(nat \<Rightarrow> Time) \<Rightarrow> nat \<Rightarrow> Duration \<Rightarrow> Store list \<Rightarrow> Store list \<Rightarrow> Store list"
where
  "storesFailedLoop now k d [] stores = stores"
| "storesFailedLoop now k d (store # rest) stores =
     storesFailedLoop now (Suc k) d rest
       (if sint d \<le> sint (time_Sub (now k) (LastTransitionTime store))
        then stores @ [store] else stores)"

text \<open>
  The method has a pointer receiver; it returns the status as it leaves it, next to the
  stores it selects.
\<close>

definition StoresFailedFor ::
  "(nat \<Rightarrow> Time) \<Rightarrow> FailoverStatus \<Rightarrow> Duration \<Rightarrow> FailoverStatus \<times> Store list"
where
  "StoresFailedFor now s d = (s, storesFailedLoop now 0 d (FailedStores s) [])"

section \<open>The configuration tree\<close>

text \<open>
  Modelled from the spec: \<open>v1alpha1.TomlConfig\<close> (the specification's ConfigTree) is
  declared outside the files embedded here. Section 3: a "nested key/value document addressed
  by path (ordered sequence of keys). \<open>Set(path, value)\<close> replaces the leaf at path,
  creating intermediate nodes as needed. \<open>Merge(other)\<close> recursively unions two trees; on
  leaf conflict the receiver's value is kept and the incoming value discarded".
\<close>

datatype tomlValue = TString string | TStrings "string list" | TInt int | TBool bool

datatype toml = Leaf tomlValue | Table "(string \<times> toml) list"

fun entries :: "toml \<Rightarrow> (string \<times> toml) list" where
  "entries (Table es) = es"
| "entries (Leaf v) = []"

fun putEntry :: "string \<Rightarrow> toml \<Rightarrow> (string \<times> toml) list \<Rightarrow> (string \<times> toml) list" where
  "putEntry k t [] = [(k, t)]"
| "putEntry k t ((k', t') # es) = (if k' = k then (k, t) # es else (k', t') # putEntry k t es)"

definition child :: "string \<Rightarrow> toml \<Rightarrow> toml" where
  "child k t = (case map_of (entries t) k of None \<Rightarrow> Table [] | Some c \<Rightarrow> c)"

fun toml_Set :: "string list \<Rightarrow> tomlValue \<Rightarrow> toml \<Rightarrow> toml" where
  "toml_Set [] v t = t"
| "toml_Set [k] v t = Table (putEntry k (Leaf v) (entries t))"
| "toml_Set (k # ks) v t = Table (putEntry k (toml_Set ks v (child k t)) (entries t))"

fun toml_Merge :: "toml \<Rightarrow> toml \<Rightarrow> toml"
  and mergeEntries :: "(string \<times> toml) list \<Rightarrow> (string \<times> toml) list \<Rightarrow> (string \<times> toml) list"
where
  "toml_Merge (Table es) (Table fs) = Table (mergeEntries es fs)"
| "toml_Merge (Table es) (Leaf w) = Table es"
| "toml_Merge (Leaf v) u = Leaf v"
| "mergeEntries es [] = es"
| "mergeEntries es ((k, c) # fs) =
     mergeEntries
       (case map_of es k of
          None \<Rightarrow> es @ [(k, c)]
        | Some r \<Rightarrow> putEntry k (toml_Merge r c) es)
       fs"

fun lookup :: "string list \<Rightarrow> toml \<Rightarrow> toml option" where
  "lookup [] t = Some t"
| "lookup (k # ks) t = (case map_of (entries t) k of None \<Rightarrow> None | Some c \<Rightarrow> lookup ks c)"

definition NewTomlConfig :: "(string \<times> toml) list \<Rightarrow> toml" where
  "NewTomlConfig m = Table m"

section \<open>The DataNode set controller (\<open>pkg/controllers/dnset\<close>)\<close>

subsection \<open>The API objects\<close>

text \<open>
  The declarations of the API types lie outside the files embedded here; the records carry
  the fields the controller code and the test templates use. Embedded structs
  (\<open>PodSet\<close>, \<open>MainContainer\<close>, \<open>LogSetRef\<close>) are flattened into the struct that embeds
  them, as their fields are promoted. A quantity is its value in bytes.
\<close>

record FileSystemProvider =
  Path :: string

record SharedStorageProvider =
  S3 :: "S3Provider option"
  FileSystem :: "FileSystemProvider option"

record Volume =
  Size :: int
  StorageClassName :: "string option"

record SharedStorageCache =
  MemoryCacheSize :: "int option"
  DiskCacheSize :: "int option"

record LogSetDiscovery =
  Port :: int
  Address :: string

record LogSetSpec =
  Replicas :: int
  SharedStorage :: SharedStorageProvider

record LogSetStatus =
  Discovery :: "LogSetDiscovery option"

record LogSet =
  ObjectMeta :: ObjectMeta
  Spec :: LogSetSpec
  Status :: LogSetStatus

record DNSetSpec =
  Replicas :: int
  Image :: string
  Resources :: ResourceRequirements
  TopologyEvenSpread :: "string list"
  NodeSelector :: "(string \<rightharpoonup> string) option"
  Config :: "toml option"
  DNSBasedIdentity :: bool
  Overlay :: "Overlay option"
  CacheVolume :: "Volume option"
  SharedStorageCache :: SharedStorageCache

record DNSetDeps =
  LogSet :: "LogSet option"
  ExternalLogSet :: "string option"

record DNSet =
  ObjectMeta :: ObjectMeta
  Spec :: DNSetSpec
  Deps :: DNSetDeps

record ConfigMap =
  ObjectMeta :: ObjectMeta
  Data :: "string \<rightharpoonup> string"

record PodTemplateSpec =
  ObjectMeta :: ObjectMeta
  Spec :: PodSpec

record StatefulSetSpec =
  Replicas :: "int option"
  Template :: PodTemplateSpec
  VolumeClaimTemplates :: "string list"

record StatefulSet =
  ObjectMeta :: ObjectMeta
  Spec :: StatefulSetSpec

text \<open>
  \<open>recon.Context\<close>: \<open>Obj\<close> is the object under reconciliation, \<open>Dep\<close> the snapshot of it
  with resolved dependencies, a pointer that may be nil.
\<close>

record Context =
  Obj :: DNSet
  Dep :: "DNSet option"

text \<open>The data handed to the start script template.\<close>

record model =
  DNServicePort :: int
  ConfigFilePath :: string
  LockServicePort :: int

subsection \<open>What the controller takes from other packages\<close>

text \<open>
  Constants and functions of the packages \<open>common\<close>, \<open>logset\<close>, \<open>util\<close> and of other
  files of \<open>dnset\<close>, none of them among the files embedded here, are parameters of the model.
  \<open>ToString\<close> renders a configuration tree and may fail; \<open>Execute\<close> is the execution of
  \<open>startScriptTpl\<close> on a \<open>model\<close>; \<open>SyncConfigMap\<close> stores the configuration document
  and returns the pod specification it has updated, or an error.
\<close>

record Common =
  ConfigVolume :: string
  ConfigPath :: string
  ConfigFile :: string
  Entrypoint :: string
  DataVolume :: string
  DataPath :: string
  DataDir :: string
  PodNameEnvKey :: string
  NamespaceEnvKey :: string
  HeadlessSvcEnvKey :: string
  LockServicePort :: int
  FileServiceConfig ::
    "string \<Rightarrow> SharedStorageProvider \<Rightarrow> Volume option \<Rightarrow> SharedStorageCache \<Rightarrow> toml"
  ObjMetaTemplate :: "DNSet \<Rightarrow> string \<Rightarrow> ObjectMeta"
  SetStorageProviderConfig :: "SharedStorageProvider \<Rightarrow> PodSpec \<Rightarrow> PodSpec"
  SyncTopology :: "string list \<Rightarrow> PodSpec \<Rightarrow> PodSpec"
  SyncConfigMap :: "Context \<Rightarrow> PodSpec \<Rightarrow> ConfigMap \<Rightarrow> PodSpec \<times> fault option"

record Env =
  common :: Common
  HaKeeperAdds :: "LogSet \<Rightarrow> string list"
  FieldRefEnv :: "string \<Rightarrow> string \<Rightarrow> EnvVar"
  InPlaceUpdateReady :: string
  dnServicePort :: int
  getListenAddress :: string
  configMapName :: "DNSet \<Rightarrow> string"
  headlessSvcName :: "DNSet \<Rightarrow> string"
  ToString :: "toml \<Rightarrow> fault + string"
  Execute :: "model \<Rightarrow> fault + string"

subsection \<open>\<open>fmt.Sprintf\<close> with the formats of the controller\<close>

fun digits :: "nat \<Rightarrow> string" where
  "digits n = (if n < 10 then [''0123456789'' ! n]
               else digits (n div 10) @ [''0123456789'' ! (n mod 10)])"

text \<open>The verb \<open>%d\<close>.\<close>

definition Sprintf_d :: "int \<Rightarrow> string" where
  "Sprintf_d i = (if i < 0 then ''-'' @ digits (nat (- i)) else digits (nat i))"

text \<open>\<open>fmt.Sprintf("%s/%s", a, b)\<close>.\<close>

definition Sprintf_s_slash_s :: "string \<Rightarrow> string \<Rightarrow> string" where
  "Sprintf_s_slash_s a b = a @ ''/'' @ b"

text \<open>\<open>LogSetDiscovery.String\<close>: \<open>address:port\<close>.\<close>

definition Discovery_String :: "LogSetDiscovery \<Rightarrow> string" where
  "Discovery_String d = Address d @ '':'' @ Sprintf_d (Port d)"

subsection \<open>The controller functions\<close>

definition serviceType :: string where
  "serviceType = ''DN''"

definition zeroContainer :: Container where
  "zeroContainer = \<lparr>Container.Name = [], Container.Image = [], Container.Command = [],
     Container.Args = [], Container.EnvFrom = [], Container.Env = [],
     Container.Resources = \<lparr>Limits = Map.empty, Requests = Map.empty\<rparr>,
     Container.VolumeMounts = [], Container.LivenessProbe = None,
     Container.ReadinessProbe = None, Container.Lifecycle = None,
     Container.ImagePullPolicy = []\<rparr>"

definition syncReplicas :: "DNSet \<Rightarrow> StatefulSet \<Rightarrow> StatefulSet" where
  "syncReplicas dn cs =
     cs\<lparr>StatefulSet.Spec := (StatefulSet.Spec cs)
          \<lparr>StatefulSetSpec.Replicas := Some (DNSetSpec.Replicas (DNSet.Spec dn))\<rparr>\<rparr>"

definition syncPodMeta :: "DNSet \<Rightarrow> StatefulSet \<Rightarrow> fault + StatefulSet" where
  "syncPodMeta dn cs =
     (case OverlayPodMeta (Overlay (DNSet.Spec dn))
             (PodTemplateSpec.ObjectMeta (Template (StatefulSet.Spec cs))) of
        Inl e \<Rightarrow> Inl e
      | Inr meta \<Rightarrow>
          Inr (cs\<lparr>StatefulSet.Spec := (StatefulSet.Spec cs)
                 \<lparr>Template := (Template (StatefulSet.Spec cs))
                    \<lparr>PodTemplateSpec.ObjectMeta := meta\<rparr>\<rparr>\<rparr>))"

definition syncPodSpec ::
  "Env \<Rightarrow> DNSet \<Rightarrow> StatefulSet \<Rightarrow> SharedStorageProvider \<Rightarrow> StatefulSet"
where
  "syncPodSpec env dn sts sp =
     (let volumeMountsList =
            [\<lparr>VolumeMount.Name = ConfigVolume (common env), ReadOnly = True,
              MountPath = ConfigPath (common env)\<rparr>];
          dataVolume = \<lparr>VolumeMount.Name = DataVolume (common env), ReadOnly = False,
                        MountPath = DataPath (common env)\<rparr>;
          volumeMountsList = (if CacheVolume (DNSet.Spec dn) \<noteq> None
                              then volumeMountsList @ [dataVolume] else volumeMountsList);
          mainRef = FindFirst (Containers (PodTemplateSpec.Spec (Template (StatefulSet.Spec sts))))
                      (\<lambda>c. Container.Name c = ContainerMain);
          mainRef = (case mainRef of
                       None \<Rightarrow> zeroContainer\<lparr>Container.Name := ContainerMain\<rparr>
                     | Some c \<Rightarrow> c);
          mainRef = mainRef\<lparr>Container.Image := DNSetSpec.Image (DNSet.Spec dn)\<rparr>;
          mainRef = mainRef\<lparr>Container.Resources := DNSetSpec.Resources (DNSet.Spec dn)\<rparr>;
          mainRef = mainRef\<lparr>Container.Command :=
                      [''/bin/sh'',
                       Sprintf_s_slash_s (ConfigPath (common env)) (Entrypoint (common env))]\<rparr>;
          mainRef = mainRef\<lparr>Container.VolumeMounts := volumeMountsList\<rparr>;
          mainRef = mainRef\<lparr>Container.Env :=
                      [FieldRefEnv env (PodNameEnvKey (common env)) ''metadata.name'',
                       FieldRefEnv env (NamespaceEnvKey (common env)) ''metadata.namespace'',
                       \<lparr>EnvVar.Name = HeadlessSvcEnvKey (common env),
                        Value = headlessSvcName env dn, ValueFrom = None\<rparr>]\<rparr>;
          mainRef = (if DNSBasedIdentity (DNSet.Spec dn)
                     then mainRef\<lparr>Container.Env := Container.Env mainRef
                            @ [\<lparr>EnvVar.Name = ''HOSTNAME_UUID'', Value = ''y'',
                                ValueFrom = None\<rparr>]\<rparr>
                     else mainRef);
          mainRef = OverlayMainContainer (Overlay (DNSet.Spec dn)) mainRef;
          specRef = PodTemplateSpec.Spec (Template (StatefulSet.Spec sts));
          specRef = specRef\<lparr>Containers := [mainRef]\<rparr>;
          specRef = specRef\<lparr>ReadinessGates := [InPlaceUpdateReady env]\<rparr>;
          specRef = specRef\<lparr>PodSpec.NodeSelector := DNSetSpec.NodeSelector (DNSet.Spec dn)\<rparr>;
          specRef = SetStorageProviderConfig (common env) sp specRef;
          specRef = SyncTopology (common env) (TopologyEvenSpread (DNSet.Spec dn)) specRef;
          specRef = OverlayPodSpec (Overlay (DNSet.Spec dn)) specRef
      in sts\<lparr>StatefulSet.Spec := (StatefulSet.Spec sts)
              \<lparr>Template := (Template (StatefulSet.Spec sts))
                 \<lparr>PodTemplateSpec.Spec := specRef\<rparr>\<rparr>\<rparr>)"

text \<open>
  The configuration tree \<open>conf\<close> that \<open>buildDNSetConfigMap\<close> assembles once the discovery
  address has been found present. The statement that would set
  \<open>hakeeper-client.discovery-address\<close> to \<open>ls.Status.Discovery.String()\<close> is commented
  out in the source and therefore has no counterpart here.
\<close>

definition dnSetConf :: "Env \<Rightarrow> DNSet \<Rightarrow> LogSet \<Rightarrow> toml" where
  "dnSetConf env dn ls =
     (let conf = Config (DNSet.Spec dn);
          conf = (case conf of None \<Rightarrow> NewTomlConfig [] | Some c \<Rightarrow> c);
          conf = toml_Set [''hakeeper-client'', ''service-addresses'']
                   (TStrings (HaKeeperAdds env ls)) conf;
          conf = toml_Merge conf
                   (FileServiceConfig (common env)
                      (Sprintf_s_slash_s (DataPath (common env)) (DataDir (common env)))
                      (SharedStorage (LogSet.Spec ls))
                      (CacheVolume (DNSet.Spec dn))
                      (SharedStorageCache (DNSet.Spec dn)));
          conf = toml_Set [''service-type''] (TString serviceType) conf;
          conf = toml_Set [''dn'', ''listen-address''] (TString (getListenAddress env)) conf;
          conf = toml_Set [''dn'', ''lockservice'', ''listen-address'']
                   (TString (''0.0.0.0:'' @ Sprintf_d (Common.LockServicePort (common env)))) conf
      in conf)"

text \<open>
  \<open>buildDNSetConfigMap\<close>. The log set is a pointer, and reading \<open>ls.Status\<close> through a
  nil pointer panics.
\<close>

definition buildDNSetConfigMap :: "Env \<Rightarrow> DNSet \<Rightarrow> LogSet option \<Rightarrow> fault + ConfigMap" where
  "buildDNSetConfigMap env dn lsRef =
     (case lsRef of
        None \<Rightarrow> Inl (Panic ''invalid memory address or nil pointer dereference'')
      | Some ls \<Rightarrow>
          if Discovery (LogSet.Status ls) = None
          then Inl (Error ''HAKeeper discovery address not ready'')
          else
            (case ToString env (dnSetConf env dn ls) of
               Inl err \<Rightarrow> Inl err
             | Inr s \<Rightarrow>
                 (case Execute env
                         \<lparr>DNServicePort = dnServicePort env,
                          ConfigFilePath = Sprintf_s_slash_s (ConfigPath (common env))
                                             (ConfigFile (common env)),
                          model.LockServicePort = Common.LockServicePort (common env)\<rparr> of
                    Inl err \<Rightarrow> Inl err
                  | Inr buff \<Rightarrow>
                      Inr \<lparr>ConfigMap.ObjectMeta =
                             ObjMetaTemplate (common env) dn (configMapName env dn),
                           Data = [ConfigFile (common env) \<mapsto> s,
                                   Entrypoint (common env) \<mapsto> buff]\<rparr>)))"

text \<open>
  \<open>syncPods\<close>. The result is the workload as the function leaves it together with the
  error it returns, if any. The first statement reads \<open>ctx.Dep.Deps.LogSet\<close>, which
  panics for a nil \<open>ctx.Dep\<close>; the test \<open>ctx.Dep != nil\<close> comes after it.
\<close>

definition syncPods :: "Env \<Rightarrow> Context \<Rightarrow> StatefulSet \<Rightarrow> StatefulSet \<times> fault option" where
  "syncPods env ctx sts =
     (case Dep ctx of
        None \<Rightarrow> (sts, Some (Panic ''invalid memory address or nil pointer dereference''))
      | Some dep \<Rightarrow>
          (case buildDNSetConfigMap env (Obj ctx) (LogSet (DNSet.Deps dep)) of
             Inl err \<Rightarrow> (sts, Some err)
           | Inr cm \<Rightarrow>
               (case syncPodMeta (Obj ctx) sts of
                  Inl err \<Rightarrow> (sts, Some err)
                | Inr sts \<Rightarrow>
                    (case (if Dep ctx \<noteq> None
                           then (case LogSet (DNSet.Deps dep) of
                                   None \<Rightarrow>
                                     Inl (Panic ''invalid memory address or nil pointer dereference'')
                                 | Some ls \<Rightarrow>
                                     Inr (syncPodSpec env (Obj ctx) sts
                                            (SharedStorage (LogSet.Spec ls))))
                           else Inr sts) of
                       Inl err \<Rightarrow> (sts, Some err)
                     | Inr sts \<Rightarrow>
                         (let (specRef, err) =
                                SyncConfigMap (common env) ctx
                                  (PodTemplateSpec.Spec (Template (StatefulSet.Spec sts))) cm
                          in (sts\<lparr>StatefulSet.Spec := (StatefulSet.Spec sts)
                                    \<lparr>Template := (Template (StatefulSet.Spec sts))
                                       \<lparr>PodTemplateSpec.Spec := specRef\<rparr>\<rparr>\<rparr>,
                              err))))))"

section \<open>Defaulting of the cache sizes (CNSet webhook)\<close>

record CNSetSpec =
  Replicas :: int
  Image :: string
  Resources :: ResourceRequirements
  CacheVolume :: "Volume option"
  SharedStorageCache :: SharedStorageCache

record CNSet =
  ObjectMeta :: ObjectMeta
  Spec :: CNSetSpec
  Deps :: DNSetDeps







section \<open>Zero values and sample objects\<close>

text \<open>The Go zero values of the structs, and small objects built from them.\<close>

definition zeroPodSpec :: PodSpec where
  "zeroPodSpec = \<lparr>PodSpec.Volumes = [], PodSpec.InitContainers = [], Containers = [],
     PodSpec.Affinity = None, PodSpec.ServiceAccountName = [], PodSpec.SecurityContext = None,
     PodSpec.ImagePullSecrets = [], PodSpec.Tolerations = [], PodSpec.PriorityClassName = [],
     PodSpec.TerminationGracePeriodSeconds = None, PodSpec.HostAliases = [],
     PodSpec.TopologySpreadConstraints = [], PodSpec.RuntimeClassName = None,
     PodSpec.DNSConfig = None, ReadinessGates = [], NodeSelector = None\<rparr>"



definition failedStore :: "string \<Rightarrow> Time \<Rightarrow> Store" where
  "failedStore pod t = \<lparr>PodName = pod, Phase = ''Failed'', LastTransitionTime = t\<rparr>"

text \<open>
  Stand-ins for the parameters of the controller model, for running it on concrete data.
  The statements proved for every \<open>Env\<close> do not depend on them.
\<close>

definition sampleCommon :: Common where
  "sampleCommon = \<lparr>ConfigVolume = ''config'', ConfigPath = ''/etc/matrixone/config'',
     ConfigFile = ''config.toml'', Entrypoint = ''start.sh'', DataVolume = ''data'',
     DataPath = ''/var/lib/matrixone'', DataDir = ''data'', PodNameEnvKey = ''POD_NAME'',
     NamespaceEnvKey = ''NAMESPACE'', HeadlessSvcEnvKey = ''HEADLESS_SERVICE_NAME'',
     Common.LockServicePort = 6003,
     FileServiceConfig = (\<lambda>dir sp cv cache.
        Table [(''fileservice'', Table [(''data-dir'', Leaf (TString dir))])]),
     ObjMetaTemplate = (\<lambda>dn name.
        \<lparr>ObjectMeta.Name = name, Namespace = Namespace (DNSet.ObjectMeta dn),
         Labels = None, Annotations = None\<rparr>),
     SetStorageProviderConfig = (\<lambda>sp pod. pod),
     SyncTopology = (\<lambda>keys pod. pod),
     SyncConfigMap = (\<lambda>ctx pod cm. (pod, None))\<rparr>"

definition sampleEnv :: Env where
  "sampleEnv = \<lparr>common = sampleCommon,
     HaKeeperAdds = (\<lambda>ls.
        [ObjectMeta.Name (LogSet.ObjectMeta ls) @ ''-log-0.'' @
         ObjectMeta.Name (LogSet.ObjectMeta ls) @ ''-log-headless.'' @
         Namespace (LogSet.ObjectMeta ls) @ ''.svc:32001'']),
     FieldRefEnv = (\<lambda>name path. \<lparr>EnvVar.Name = name, Value = [], ValueFrom = Some path\<rparr>),
     InPlaceUpdateReady = ''InPlaceUpdateReady'',
     dnServicePort = 41010,
     getListenAddress = ''0.0.0.0:41010'',
     configMapName = (\<lambda>dn. ObjectMeta.Name (DNSet.ObjectMeta dn) @ ''-dn-config''),
     headlessSvcName = (\<lambda>dn. ObjectMeta.Name (DNSet.ObjectMeta dn) @ ''-dn-headless''),
     ToString = (\<lambda>t. Inr ''# rendered configuration''),
     Execute = (\<lambda>m. Inr ''#!/bin/sh'')\<rparr>"

definition sampleLogSet :: "LogSetDiscovery option \<Rightarrow> LogSet" where
  "sampleLogSet discovery =
     \<lparr>LogSet.ObjectMeta = \<lparr>ObjectMeta.Name = ''mo'', Namespace = ''default'',
                            Labels = None, Annotations = None\<rparr>,
      LogSet.Spec = \<lparr>LogSetSpec.Replicas = 3,
                     SharedStorage = \<lparr>S3 = None,
                                      FileSystem = Some \<lparr>FileSystemProvider.Path = ''/test''\<rparr>\<rparr>\<rparr>,
      LogSet.Status = \<lparr>Discovery = discovery\<rparr>\<rparr>"

definition sampleDNSet :: "LogSet option \<Rightarrow> DNSet" where
  "sampleDNSet logset =
     \<lparr>DNSet.ObjectMeta = \<lparr>ObjectMeta.Name = ''mo'', Namespace = ''default'',
                           Labels = None, Annotations = None\<rparr>,
      DNSet.Spec = \<lparr>DNSetSpec.Replicas = 1, DNSetSpec.Image = ''matrixorigin/matrixone:latest'',
                    DNSetSpec.Resources = \<lparr>Limits = Map.empty, Requests = Map.empty\<rparr>,
                    TopologyEvenSpread = [], DNSetSpec.NodeSelector = None, Config = None,
                    DNSBasedIdentity = False, Overlay = None, DNSetSpec.CacheVolume = None,
                    DNSetSpec.SharedStorageCache =
                      \<lparr>MemoryCacheSize = None, DiskCacheSize = None\<rparr>\<rparr>,
      DNSet.Deps = \<lparr>LogSet = logset, ExternalLogSet = None\<rparr>\<rparr>"

definition zeroStatefulSet :: StatefulSet where
  "zeroStatefulSet =
     \<lparr>StatefulSet.ObjectMeta = \<lparr>ObjectMeta.Name = [], Namespace = [],
                                 Labels = None, Annotations = None\<rparr>,
      StatefulSet.Spec =
        \<lparr>StatefulSetSpec.Replicas = None,
         Template = \<lparr>PodTemplateSpec.ObjectMeta =
                       \<lparr>ObjectMeta.Name = [], Namespace = [],
                        Labels = None, Annotations = None\<rparr>,
                     PodTemplateSpec.Spec = zeroPodSpec\<rparr>,
         VolumeClaimTemplates = []\<rparr>\<rparr>"

definition publishedDiscovery :: LogSetDiscovery where
  "publishedDiscovery = \<lparr>Port = 32001, Address = ''mo-log-discovery.default.svc''\<rparr>"

chapter \<open>Properties\<close>

section \<open>Properties of the bucket identity\<close>

lemma length_sha1_Sum: "length (sha1_Sum m) = 20"
  by (simp add: sha1_Sum_def bytes32_def split: prod.split)

lemma length_Sprintf_x: "length (Sprintf_x bs) = 2 * length bs"
  by (induction bs) (simp_all add: Sprintf_x_def)




lemma length_UniqueBucketLabel: "length (UniqueBucketLabel p) = 40"
  by (simp add: UniqueBucketLabel_def length_Sprintf_x length_sha1_Sum)

lemma UniqueBucketLabel_of_uniqIdString:
  "uniqIdString p = uniqIdString q \<Longrightarrow> UniqueBucketLabel p = UniqueBucketLabel q"
  by (simp add: UniqueBucketLabel_def)

lemma uniqIdString_cong:
  "providerType p = providerType q \<Longrightarrow> Endpoint p = Endpoint q \<Longrightarrow> S3Provider.Path p = S3Provider.Path q
     \<Longrightarrow> uniqIdString p = uniqIdString q"
  by (simp add: uniqIdString_def)


lemma uniqIdString_separator_ambiguity:
  "uniqIdString \<lparr>S3Provider.Path = ''c'', Type = Some ''a'', Endpoint = ''b-x'', SecretRef = None\<rparr>
     = uniqIdString \<lparr>S3Provider.Path = ''x-c'', Type = Some ''a'', Endpoint = ''b'', SecretRef = None\<rparr>"
  by (simp add: uniqIdString_def Sprintf_s_s_s_def providerType_def)




text \<open>
  C10. Two providers with equal endpoint and path, one with a nil type and the other
  with a type pointing at the empty string, get the same identity.
\<close>

theorem UniqueBucketLabel_nil_type_is_empty_type:
  fixes p :: "'a S3Provider_scheme" and q :: "'b S3Provider_scheme"
  assumes "Type p = None" and "Type q = Some []"
    and "Endpoint p = Endpoint q" and "S3Provider.Path p = S3Provider.Path q"
  shows "UniqueBucketLabel p = UniqueBucketLabel q"
proof -
  have "providerType p = providerType q"
    using assms(1,2) by (simp add: providerType_def)
  then have "uniqIdString p = uniqIdString q"
    using assms(3,4) by (rule uniqIdString_cong)
  then show ?thesis by (rule UniqueBucketLabel_of_uniqIdString)
qed

theorem UniqueBucketLabel_nil_type_is_empty_type_witness:
  "UniqueBucketLabel (minioProvider\<lparr>Type := None\<rparr>)
     = UniqueBucketLabel (minioProvider\<lparr>Type := Some []\<rparr>)"
  using UniqueBucketLabel_nil_type_is_empty_type
          [of "minioProvider\<lparr>Type := None\<rparr>" "minioProvider\<lparr>Type := Some []\<rparr>"]
  by simp

section \<open>Properties of the bucket claim lookup\<close>

lemma ClaimedBucket_list_error:
  "ListBucketClaims c [(BucketUniqLabel, UniqueBucketLabel provider)] = Inl err
     \<Longrightarrow> ClaimedBucket c provider = Inl err"
  by (simp add: ClaimedBucket_def)

text \<open>
  C1. When the lookup by identity label lists the matching claims, \<open>ClaimedBucket\<close>
  returns \<open>(nil, nil)\<close> for no match, the claim itself for exactly one match, and the
  error "list more than one buckets" for two or more matches, whatever they are.
\<close>

theorem ClaimedBucket_by_number_of_matches:
  assumes "ListBucketClaims c [(BucketUniqLabel, UniqueBucketLabel provider)] = Inr items"
  shows "(items = [] \<longrightarrow> ClaimedBucket c provider = Inr None)
       \<and> (\<forall>bc. items = [bc] \<longrightarrow> ClaimedBucket c provider = Inr (Some bc))
       \<and> (2 \<le> length items
            \<longrightarrow> ClaimedBucket c provider = Inl (Error ''list more than one buckets''))"
proof (cases items)
  case Nil
  with assms show ?thesis by (simp add: ClaimedBucket_def)
next
  case (Cons x xs)
  with assms show ?thesis
    by (cases xs) (simp_all add: ClaimedBucket_def)
qed

theorem ClaimedBucket_by_number_of_matches_witness:
  "ClaimedBucket (seededClient [claimFor ''other'' ''0'']) minioProvider = Inr None
   \<and> ClaimedBucket
        (seededClient [claimFor ''other'' ''0'',
                       claimFor ''bucket-a'' (UniqueBucketLabel minioProvider)])
        minioProvider
      = Inr (Some (claimFor ''bucket-a'' (UniqueBucketLabel minioProvider)))
   \<and> ClaimedBucket
        (seededClient [claimFor ''bucket-a'' (UniqueBucketLabel minioProvider),
                       claimFor ''other'' ''0'',
                       claimFor ''bucket-b'' (UniqueBucketLabel minioProvider)])
        minioProvider
      = Inl (Error ''list more than one buckets'')"
proof -
  have ne: "''0'' \<noteq> UniqueBucketLabel minioProvider"
  proof
    assume "''0'' = UniqueBucketLabel minioProvider"
    then have "length ''0'' = length (UniqueBucketLabel minioProvider)" by (rule arg_cong)
    then show False by (simp add: length_UniqueBucketLabel)
  qed
  have l0: "ListBucketClaims (seededClient [claimFor ''other'' ''0''])
              [(BucketUniqLabel, UniqueBucketLabel minioProvider)] = Inr []"
    using ne by (simp add: seededClient_def hasLabels_def claimFor_def)
  have l1: "ListBucketClaims
              (seededClient [claimFor ''other'' ''0'',
                             claimFor ''bucket-a'' (UniqueBucketLabel minioProvider)])
              [(BucketUniqLabel, UniqueBucketLabel minioProvider)]
            = Inr [claimFor ''bucket-a'' (UniqueBucketLabel minioProvider)]"
    using ne by (simp add: seededClient_def hasLabels_def claimFor_def)
  have l2: "ListBucketClaims
              (seededClient [claimFor ''bucket-a'' (UniqueBucketLabel minioProvider),
                             claimFor ''other'' ''0'',
                             claimFor ''bucket-b'' (UniqueBucketLabel minioProvider)])
              [(BucketUniqLabel, UniqueBucketLabel minioProvider)]
            = Inr [claimFor ''bucket-a'' (UniqueBucketLabel minioProvider),
                   claimFor ''bucket-b'' (UniqueBucketLabel minioProvider)]"
    using ne by (simp add: seededClient_def hasLabels_def claimFor_def)
  show ?thesis
    using ClaimedBucket_by_number_of_matches [OF l0]
          ClaimedBucket_by_number_of_matches [OF l1]
          ClaimedBucket_by_number_of_matches [OF l2]
    by simp
qed

section \<open>Properties of the overlay helpers\<close>


lemma map_key_upsertByKey:
  "map keyFn (upsertByKey keyFn ys x) =
     (if keyFn x \<in> keyFn ` set ys then map keyFn ys else map keyFn ys @ [keyFn x])"
  by (induction ys) auto







text \<open>
  C4. A nil overlay changes nothing: \<open>OverlayPodSpec\<close> and \<open>OverlayMainContainer\<close>
  return the object they are given, and \<open>OverlayPodMeta\<close> returns the metadata
  unchanged, without a panic.
\<close>

theorem nil_overlay_is_identity:
  "OverlayPodSpec None pod = pod
   \<and> OverlayPodMeta None meta = Inr meta
   \<and> OverlayMainContainer None c = c"
  by (simp add: OverlayPodSpec_def OverlayPodMeta_def OverlayMainContainer_def)



section \<open>Properties of the failover query\<close>

lemma sint_word_of_int_64:
  "- (2 ^ 63) \<le> x \<Longrightarrow> x < 2 ^ 63 \<Longrightarrow> sint (word_of_int x :: 64 word) = x"
  by (simp add: sint_sbintrunc' signed_take_bit_int_eq_self)

lemma sint_time_Sub: "sint (time_Sub t u) = max minDuration (min maxDuration (t - u))"
  unfolding time_Sub_def Let_def minDuration_def maxDuration_def
  by (auto simp: sint_word_of_int_64 simp del: of_int_diff)

lemma sint_Duration_range: "minDuration \<le> sint (d :: Duration) \<and> sint d \<le> maxDuration"
  using sint_ge [where x = d] sint_lt [where x = d] by (simp add: minDuration_def maxDuration_def)

lemma failed_for_iff:
  "sint (d :: Duration) \<le> sint (time_Sub t u) \<longleftrightarrow> (u \<le> t - sint d \<or> sint d = minDuration)"
  using sint_Duration_range [of d] by (auto simp: sint_time_Sub)

lemma storesFailedLoop_enumerate:
  "storesFailedLoop now k d sts acc =
     acc @ map snd (filter (\<lambda>(i, store). sint d \<le> sint (time_Sub (now i) (LastTransitionTime store)))
                      (enumerate k sts))"
  by (induction sts arbitrary: k acc) simp_all

lemma storesFailedLoop_constant_clock:
  "\<forall>k. now k = t \<Longrightarrow> storesFailedLoop now k d sts acc =
     acc @ filter (\<lambda>store. LastTransitionTime store \<le> t - sint d \<or> sint d = minDuration) sts"
  by (induction sts arbitrary: k acc) (simp_all add: failed_for_iff)

text \<open>
  C6 (as amended). With the clock standing at \<open>t\<close> during the query,
  \<open>StoresFailedFor d\<close> returns, in their order, exactly the failed stores recorded at or
  before \<open>t - d\<close>, that is, those that have been failed for at least \<open>d\<close> (for the
  smallest duration, all of them, as the difference saturates). It leaves the status as
  it was. For a positive \<open>d\<close> a store recorded at \<open>t - 2d\<close> is returned and a store
  recorded at \<open>t - d/2\<close> is not.
\<close>

theorem StoresFailedFor_failed_for_at_least:
  assumes "\<forall>k. now k = t"
  shows "snd (StoresFailedFor now s d)
           = filter (\<lambda>store. LastTransitionTime store \<le> t - sint d \<or> sint d = minDuration)
               (FailedStores s)
       \<and> fst (StoresFailedFor now s d) = s
       \<and> (0 < sint d \<longrightarrow>
            (\<forall>store\<in>set (FailedStores s).
               (LastTransitionTime store = t - 2 * sint d
                  \<longrightarrow> store \<in> set (snd (StoresFailedFor now s d)))
             \<and> (LastTransitionTime store = t - sint d div 2
                  \<longrightarrow> store \<notin> set (snd (StoresFailedFor now s d)))))"
proof -
  have res: "snd (StoresFailedFor now s d)
           = filter (\<lambda>store. LastTransitionTime store \<le> t - sint d \<or> sint d = minDuration)
               (FailedStores s)"
    using storesFailedLoop_constant_clock [OF assms, of 0 d "FailedStores s" "[]"]
    by (simp add: StoresFailedFor_def)
  have unchanged: "fst (StoresFailedFor now s d) = s"
    by (simp add: StoresFailedFor_def)
  have examples: "0 < sint d \<longrightarrow>
            (\<forall>store\<in>set (FailedStores s).
               (LastTransitionTime store = t - 2 * sint d
                  \<longrightarrow> store \<in> set (snd (StoresFailedFor now s d)))
             \<and> (LastTransitionTime store = t - sint d div 2
                  \<longrightarrow> store \<notin> set (snd (StoresFailedFor now s d))))"
    unfolding res by (auto simp: minDuration_def)
  from res unchanged examples show ?thesis by blast
qed

theorem StoresFailedFor_failed_for_at_least_witness:
  "StoresFailedFor (\<lambda>k. 600000000000)
     \<lparr>AvailableStores = [],
      FailedStores = [failedStore ''dn-0'' 360000000000, failedStore ''dn-1'' 540000000000,
                      failedStore ''dn-2'' 480000000000]\<rparr>
     120000000000
   = (\<lparr>AvailableStores = [],
       FailedStores = [failedStore ''dn-0'' 360000000000, failedStore ''dn-1'' 540000000000,
                       failedStore ''dn-2'' 480000000000]\<rparr>,
      [failedStore ''dn-0'' 360000000000, failedStore ''dn-2'' 480000000000])"
proof -
  have h: "\<forall>k. (\<lambda>k. 600000000000 :: Time) k = 600000000000" by simp
  show ?thesis
    using StoresFailedFor_failed_for_at_least [OF h,
            of "\<lparr>AvailableStores = [],
                 FailedStores = [failedStore ''dn-0'' 360000000000,
                                 failedStore ''dn-1'' 540000000000,
                                 failedStore ''dn-2'' 480000000000]\<rparr>"
               120000000000]
    by (simp add: prod_eq_iff failedStore_def minDuration_def)
qed

text \<open>
  C6 as stated fails at the boundary: a store recorded exactly at \<open>now - d\<close> is not
  older than \<open>now - d\<close>, yet it is returned.
\<close>

theorem StoresFailedFor_boundary_counterexample:
  "\<not> (LastTransitionTime (failedStore ''dn-0'' (600000000000 - 120000000000))
        < 600000000000 - sint (120000000000 :: Duration))
   \<and> snd (StoresFailedFor (\<lambda>k. 600000000000)
        \<lparr>AvailableStores = [],
         FailedStores = [failedStore ''dn-0'' (600000000000 - 120000000000)]\<rparr>
        120000000000)
     = [failedStore ''dn-0'' (600000000000 - 120000000000)]"
  by (simp add: StoresFailedFor_def time_Sub_def minDuration_def maxDuration_def
        failedStore_def)

section \<open>Properties of the configuration tree\<close>

lemma map_of_putEntry: "map_of (putEntry k t es) = (map_of es)(k \<mapsto> t)"
  by (induction es) (auto simp: fun_upd_twist)


lemma lookup_Set_other_key:
  "k \<noteq> k' \<Longrightarrow> lookup (k' # ks') (toml_Set (k # ks) v t) = lookup (k' # ks') t"
  by (cases ks) (simp_all add: map_of_putEntry)



lemma mergeEntries_other_key:
  "k \<notin> fst ` set fs \<Longrightarrow> map_of (mergeEntries es fs) k = map_of es k"
proof (induction fs arbitrary: es)
  case Nil
  show ?case by simp
next
  case (Cons f fs)
  obtain k2 c2 where f: "f = (k2, c2)" by (cases f)
  with Cons.prems have ne: "k2 \<noteq> k" and rest: "k \<notin> fst ` set fs" by auto
  show ?case
    using ne Cons.IH [OF rest]
    by (simp add: f map_of_putEntry map_add_def split: option.split)
qed

section \<open>Properties of the DataNode set controller\<close>


lemma dnSetConf_no_discovery_address:
  assumes "Config (DNSet.Spec dn) = None"
    and "''hakeeper-client'' \<notin> fst ` set (entries (FileServiceConfig (common env)
            (Sprintf_s_slash_s (DataPath (common env)) (DataDir (common env)))
            (SharedStorage (LogSet.Spec ls)) (DNSetSpec.CacheVolume (DNSet.Spec dn))
            (DNSetSpec.SharedStorageCache (DNSet.Spec dn))))"
  shows "lookup [''hakeeper-client'', ''discovery-address''] (dnSetConf env dn ls) = None"
proof -
  define fsc where "fsc = FileServiceConfig (common env)
            (Sprintf_s_slash_s (DataPath (common env)) (DataDir (common env)))
            (SharedStorage (LogSet.Spec ls)) (DNSetSpec.CacheVolume (DNSet.Spec dn))
            (DNSetSpec.SharedStorageCache (DNSet.Spec dn))"
  define c0 where "c0 = toml_Set [''hakeeper-client'', ''service-addresses'']
                   (TStrings (HaKeeperAdds env ls)) (NewTomlConfig [])"
  have c0: "c0 = Table [(''hakeeper-client'',
                 Table [(''service-addresses'', Leaf (TStrings (HaKeeperAdds env ls)))])]"
    by (simp add: c0_def NewTomlConfig_def child_def)
  have m: "lookup [''hakeeper-client'', ''discovery-address''] (toml_Merge c0 fsc) = None"
  proof (cases fsc)
    case (Leaf w)
    then show ?thesis by (simp add: c0)
  next
    case (Table fs)
    with assms(2) have "''hakeeper-client'' \<notin> fst ` set fs" by (simp add: fsc_def)
    from mergeEntries_other_key [OF this] show ?thesis by (simp add: c0 Table)
  qed
  have conf: "dnSetConf env dn ls =
      toml_Set [''dn'', ''lockservice'', ''listen-address'']
        (TString (''0.0.0.0:'' @ Sprintf_d (Common.LockServicePort (common env))))
        (toml_Set [''dn'', ''listen-address''] (TString (getListenAddress env))
           (toml_Set [''service-type''] (TString serviceType) (toml_Merge c0 fsc)))"
    by (simp only: dnSetConf_def Let_def assms(1) option.case fsc_def c0_def)
  show ?thesis
    unfolding conf
    by (simp only: lookup_Set_other_key m
          list.inject char.inject list.distinct simp_thms)
qed

text \<open>The model runs on the sample objects: a reconciliation step that succeeds.\<close>

lemma syncPods_sample_run:
  "snd (syncPods sampleEnv
          \<lparr>Obj = sampleDNSet (Some (sampleLogSet (Some publishedDiscovery))),
           Dep = Some (sampleDNSet (Some (sampleLogSet (Some publishedDiscovery))))\<rparr>
          zeroStatefulSet) = None
   \<and> map Container.Name
        (Containers (PodTemplateSpec.Spec (Template (StatefulSet.Spec
          (fst (syncPods sampleEnv
                  \<lparr>Obj = sampleDNSet (Some (sampleLogSet (Some publishedDiscovery))),
                   Dep = Some (sampleDNSet (Some (sampleLogSet (Some publishedDiscovery))))\<rparr>
                  zeroStatefulSet)))))) = [''main'']
   \<and> map Container.Command
        (Containers (PodTemplateSpec.Spec (Template (StatefulSet.Spec
          (fst (syncPods sampleEnv
                  \<lparr>Obj = sampleDNSet (Some (sampleLogSet (Some publishedDiscovery))),
                   Dep = Some (sampleDNSet (Some (sampleLogSet (Some publishedDiscovery))))\<rparr>
                  zeroStatefulSet))))))
       = [[''/bin/sh'', ''/etc/matrixone/config/start.sh'']]"
  by (simp add: syncPods_def buildDNSetConfigMap_def syncPodMeta_def syncPodSpec_def
        OverlayPodMeta_def OverlayPodSpec_def OverlayMainContainer_def FindFirst_def
        sampleEnv_def sampleCommon_def sampleDNSet_def sampleLogSet_def publishedDiscovery_def
        zeroStatefulSet_def zeroPodSpec_def zeroContainer_def ContainerMain_def
        Sprintf_s_slash_s_def Let_def)

lemma Sprintf_d_sample: "Sprintf_d 6003 = ''6003''" "Sprintf_d (- 42) = ''-42''"
  by (simp_all add: Sprintf_d_def)

lemma Discovery_String_sample:
  "Discovery_String publishedDiscovery = ''mo-log-discovery.default.svc:32001''"
  by (simp add: Discovery_String_def publishedDiscovery_def Sprintf_d_def)




text \<open>
  C3 (as amended). When the dependency snapshot and its log set are present and the log
  set has published no discovery address, \<open>buildDNSetConfigMap\<close> returns the error
  "HAKeeper discovery address not ready", and \<open>syncPods\<close> returns that error and leaves
  the workload as it was.
\<close>

theorem syncPods_discovery_absent_returns_error:
  assumes "Dep ctx = Some dep" and "LogSet (DNSet.Deps dep) = Some ls"
    and "Discovery (LogSet.Status ls) = None"
  shows "buildDNSetConfigMap env (Obj ctx) (Some ls)
           = Inl (Error ''HAKeeper discovery address not ready'')
       \<and> syncPods env ctx sts = (sts, Some (Error ''HAKeeper discovery address not ready''))"
  using assms by (simp add: syncPods_def buildDNSetConfigMap_def)

theorem syncPods_discovery_absent_returns_error_witness:
  "syncPods sampleEnv
     \<lparr>Obj = sampleDNSet None, Dep = Some (sampleDNSet (Some (sampleLogSet None)))\<rparr>
     zeroStatefulSet
   = (zeroStatefulSet, Some (Error ''HAKeeper discovery address not ready''))"
proof -
  have h1: "Dep \<lparr>Obj = sampleDNSet None, Dep = Some (sampleDNSet (Some (sampleLogSet None)))\<rparr>
              = Some (sampleDNSet (Some (sampleLogSet None)))"
    by simp
  have h2: "LogSet (DNSet.Deps (sampleDNSet (Some (sampleLogSet None)))) = Some (sampleLogSet None)"
    by (simp add: sampleDNSet_def)
  have h3: "Discovery (LogSet.Status (sampleLogSet None)) = None"
    by (simp add: sampleLogSet_def)
  from syncPods_discovery_absent_returns_error [OF h1 h2 h3, of sampleEnv zeroStatefulSet]
  show ?thesis by simp
qed

text \<open>
  C3 as stated fails: with the discovery address absent, \<open>syncPods\<close> returns an error.
\<close>

theorem syncPods_NotReady_counterexample:
  "Discovery (LogSet.Status (sampleLogSet None)) = None
   \<and> snd (syncPods sampleEnv
        \<lparr>Obj = sampleDNSet (Some (sampleLogSet None)),
         Dep = Some (sampleDNSet (Some (sampleLogSet None)))\<rparr>
        zeroStatefulSet) \<noteq> None"
  by (simp add: syncPods_def buildDNSetConfigMap_def sampleDNSet_def sampleLogSet_def)

text \<open>
  C9. \<open>syncPods\<close> dereferences \<open>ctx.Dep\<close> before it tests it: with a nil dependency
  snapshot it panics, whatever the other inputs are, so a run without a panic has a
  non-nil snapshot and the later test \<open>ctx.Dep != nil\<close> never fails.
\<close>

theorem syncPods_dereferences_Dep_before_guard:
  "(Dep ctx = None \<longrightarrow>
      syncPods env ctx sts
        = (sts, Some (Panic ''invalid memory address or nil pointer dereference'')))
   \<and> ((\<forall>msg. snd (syncPods env ctx sts) \<noteq> Some (Panic msg)) \<longrightarrow> Dep ctx \<noteq> None)"
proof (cases "Dep ctx")
  case None
  then show ?thesis by (simp add: syncPods_def)
next
  case (Some dep)
  then show ?thesis by simp
qed

theorem syncPods_dereferences_Dep_before_guard_witness:
  "syncPods sampleEnv \<lparr>Obj = sampleDNSet (Some (sampleLogSet (Some publishedDiscovery))),
                       Dep = None\<rparr> zeroStatefulSet
     = (zeroStatefulSet, Some (Panic ''invalid memory address or nil pointer dereference''))
   \<and> Dep \<lparr>Obj = sampleDNSet None,
           Dep = Some (sampleDNSet (Some (sampleLogSet (Some publishedDiscovery))))\<rparr> \<noteq> None"
  using syncPods_dereferences_Dep_before_guard
          [of "\<lparr>Obj = sampleDNSet (Some (sampleLogSet (Some publishedDiscovery))),
                Dep = None\<rparr>" sampleEnv zeroStatefulSet]
  by simp

section \<open>Properties of the cache size defaults\<close>




end
